theory Spec2Isabelle
  imports Main "HOL-Library.Sublist"
begin

section \<open>The leadManager component (leadManager.js)\<close>

subsection \<open>Strings\<close>

text \<open>
  A JavaScript string is a sequence of 16-bit code units; it is modelled as a
  \<^typ>\<open>string\<close>, whose characters are the code units below 256 (Basic Latin and the
  Latin-1 Supplement). On these \<open>String.prototype.toLowerCase\<close> works character by
  character: it maps A to Z to a to z and the capital letters of Latin-1 (0xC0 to 0xDE
  without the multiplication sign 0xD7) to the small letters 0x20 above them, and
  leaves every other character as it is. \<open>str_includes s t\<close> is \<open>s.includes(t)\<close>,
  the search for \<open>t\<close> at every position of \<open>s\<close>; \<open>digits n\<close> is the decimal text
  a template literal prints for the number \<open>n\<close>.
\<close>

definition cased_upper :: string where
  "cased_upper =
     ''ABCDEFGHIJKLMNOPQRSTUVWXYZ'' @
     [CHR 0xC0, CHR 0xC1, CHR 0xC2, CHR 0xC3, CHR 0xC4, CHR 0xC5, CHR 0xC6, CHR 0xC7,
      CHR 0xC8, CHR 0xC9, CHR 0xCA, CHR 0xCB, CHR 0xCC, CHR 0xCD, CHR 0xCE, CHR 0xCF,
      CHR 0xD0, CHR 0xD1, CHR 0xD2, CHR 0xD3, CHR 0xD4, CHR 0xD5, CHR 0xD6,
      CHR 0xD8, CHR 0xD9, CHR 0xDA, CHR 0xDB, CHR 0xDC, CHR 0xDD, CHR 0xDE]"

definition cased_lower :: string where
  "cased_lower =
     ''abcdefghijklmnopqrstuvwxyz'' @
     [CHR 0xE0, CHR 0xE1, CHR 0xE2, CHR 0xE3, CHR 0xE4, CHR 0xE5, CHR 0xE6, CHR 0xE7,
      CHR 0xE8, CHR 0xE9, CHR 0xEA, CHR 0xEB, CHR 0xEC, CHR 0xED, CHR 0xEE, CHR 0xEF,
      CHR 0xF0, CHR 0xF1, CHR 0xF2, CHR 0xF3, CHR 0xF4, CHR 0xF5, CHR 0xF6,
      CHR 0xF8, CHR 0xF9, CHR 0xFA, CHR 0xFB, CHR 0xFC, CHR 0xFD, CHR 0xFE]"

definition lower_char :: "char \<Rightarrow> char" where
  "lower_char c =
     (case map_of (zip cased_upper cased_lower) c of
        None \<Rightarrow> c
      | Some l \<Rightarrow> l)"

definition toLowerCase :: "string \<Rightarrow> string" where
  "toLowerCase s = map lower_char s"

fun str_includes :: "string \<Rightarrow> string \<Rightarrow> bool" where
  "str_includes [] t = (t = [])"
| "str_includes (c # cs) t = (prefix t (c # cs) \<or> str_includes cs t)"

fun digits :: "nat \<Rightarrow> string" where
  "digits n =
     (if n < 10 then [''0123456789'' ! n]
      else digits (n div 10) @ [''0123456789'' ! (n mod 10)])"

declare digits.simps [simp del]

subsection \<open>Lead records\<close>

text \<open>
  A field of a JavaScript object is absent (\<open>undefined\<close>, here \<open>None\<close>) or holds a
  string. A raw lead is what the Apex controller returns: the owner is a nested object
  \<open>Owner\<close> with a field \<open>Name\<close>. The rows of the table are the raw lead spread into
  a new object with the two fields \<open>OwnerName\<close> and \<open>statusClass\<close> added.
\<close>

record owner_ref =
  Owner_Name :: "string option"

record raw_lead =
  LeadId :: string
  Name :: "string option"
  Company :: "string option"
  Status :: "string option"
  Owner :: "owner_ref option"
  LeadSource :: "string option"

record view_lead = raw_lead +
  OwnerName :: "string option"
  statusClass :: string

subsection \<open>Errors and the values the platform delivers\<close>

text \<open>
  \<open>error.body.message\<close> reads two nested fields of the error object the platform
  reports; reading a field of \<open>undefined\<close> throws a TypeError. A wire result is the
  object \<open>{data, error}\<close> the wire service passes to \<open>wiredLeads\<close>.
\<close>

record error_body =
  message :: "string option"

record js_error =
  body :: "error_body option"

datatype js_exn = TypeError string | Unhandled js_error

record wire_result =
  wire_data :: "raw_lead list option"
  wire_error :: "js_error option"

subsection \<open>The component and what it does to the outside\<close>

record component =
  data :: "view_lead list"
  filteredData :: "view_lead list"
  selectedRows :: "view_lead list"
  statusOptions :: "(string \<times> string) list"
  userOptions :: "(string \<times> string) list"
  selectedStatus :: "string option"
  selectedOwner :: "string option"
  searchTerm :: string
  wiredLeadsResult :: "wire_result option"
  error :: "js_error option"
  isLoading :: bool

text \<open>
  The calls that leave the component: a toast (title, message, variant), the two Apex
  updates (lead identifiers and the chosen value as the field holds it) and
  \<open>refreshApex\<close> on the stored wire result. An observation is such a call together
  with the fields of the component at the moment of the call, so that the order of
  assignments and calls can be read off a trace.
\<close>

datatype effect =
    ShowToast string string string
  | UpdateLeadStatus "string list" "string option"
  | UpdateLeadOwner "string list" "string option"
  | RefreshApex "wire_result option"

type_synonym observation = "effect \<times> component"

record outcome =
  fx :: "observation list"
  st :: component
  exn :: "js_exn option"

text \<open>
  What the platform answers: a refresh delivers zero or more wire results to
  \<open>wiredLeads\<close> and then settles the promise of \<open>refreshApex\<close> (\<open>None\<close>: resolved,
  \<open>Some e\<close>: rejected with \<open>e\<close>); an Apex update settles its promise, and when it
  resolves the refresh requested by the \<open>then\<close> callback is answered.
\<close>

record refresh_reply =
  emitted :: "wire_result list"
  settled :: "js_error option"

record mutation_reply =
  mutated :: "js_error option"
  refreshed :: refresh_reply

definition init :: component where
  "init = \<lparr>data = [], filteredData = [], selectedRows = [], statusOptions = [],
           userOptions = [], selectedStatus = None, selectedOwner = None,
           searchTerm = [], wiredLeadsResult = None, error = None, isLoading = True\<rparr>"

definition truthy :: "string option \<Rightarrow> bool" where
  "truthy v = (case v of None \<Rightarrow> False | Some x \<Rightarrow> x \<noteq> [])"

definition showToast :: "string \<Rightarrow> string \<Rightarrow> string \<Rightarrow> component \<Rightarrow> observation" where
  "showToast title msg variant s = (ShowToast title msg variant, s)"

definition error_message :: "js_error \<Rightarrow> js_exn + string" where
  "error_message e =
     (case body e of
        None \<Rightarrow> Inl (TypeError ''Cannot read properties of undefined (reading message)'')
      | Some b \<Rightarrow> Inr (case message b of None \<Rightarrow> ''undefined'' | Some m \<Rightarrow> m))"

subsection \<open>processLeadData and applyFilter\<close>

text \<open>
  \<open>viewLead\<close> is the arrow function that \<open>processLeadData\<close> maps over the leads
  (lines 96 to 112): the class is chosen by strict comparison of \<open>Status\<close>, then the
  new object is built, and building it reads \<open>lead.Owner.Name\<close>. \<open>map_leads\<close> is
  \<open>leads.map\<close> with that function: the first exception ends it.
\<close>

definition viewLead :: "raw_lead \<Rightarrow> js_exn + view_lead" where
  "viewLead lead =
     (let cls =
        (if Status lead = Some ''Working - Contacted'' then ''slds-text-color_success''
         else if Status lead = Some ''Closed - Not Converted'' then ''slds-text-color_error''
         else if Status lead = Some ''Open - Not Contacted'' then ''slds-text-color_weak''
         else '''')
      in case Owner lead of
           None \<Rightarrow> Inl (TypeError ''Cannot read properties of undefined (reading Name)'')
         | Some owner \<Rightarrow>
             Inr \<lparr>LeadId = LeadId lead, Name = Name lead, Company = Company lead,
                  Status = Status lead, Owner = Owner lead, LeadSource = LeadSource lead,
                  OwnerName = Owner_Name owner, statusClass = cls\<rparr>)"

fun map_leads :: "raw_lead list \<Rightarrow> js_exn + view_lead list" where
  "map_leads [] = Inr []"
| "map_leads (lead # leads) =
     (case viewLead lead of
        Inl e \<Rightarrow> Inl e
      | Inr v \<Rightarrow> (case map_leads leads of Inl e \<Rightarrow> Inl e | Inr vs \<Rightarrow> Inr (v # vs)))"

text \<open>
  \<open>applyFilter\<close> (lines 158 to 177): an empty search term copies \<open>data\<close>; otherwise a
  lead is kept when \<open>some\<close> of its five fields is truthy (present and not empty) and
  its lowered text includes the term.
\<close>

definition searchableFields :: "view_lead \<Rightarrow> string option list" where
  "searchableFields lead =
     [Name lead, Company lead, Status lead, OwnerName lead, LeadSource lead]"

definition field_matches :: "string \<Rightarrow> string option \<Rightarrow> bool" where
  "field_matches term field =
     (case field of
        None \<Rightarrow> False
      | Some f \<Rightarrow> f \<noteq> [] \<and> str_includes (toLowerCase f) term)"

definition applyFilter :: "component \<Rightarrow> component" where
  "applyFilter s =
     (if searchTerm s = [] then s\<lparr>filteredData := data s\<rparr>
      else s\<lparr>filteredData :=
               filter (\<lambda>lead. list_ex (field_matches (searchTerm s)) (searchableFields lead))
                 (data s)\<rparr>)"

definition processLeadData :: "raw_lead list \<Rightarrow> component \<Rightarrow> js_exn + component" where
  "processLeadData leads s =
     (case map_leads leads of
        Inl e \<Rightarrow> Inl e
      | Inr vs \<Rightarrow> Inr (applyFilter (s\<lparr>data := vs, filteredData := vs\<rparr>)))"

subsection \<open>The wire handler and the event handlers\<close>

text \<open>
  \<open>wiredLeads\<close> (lines 78 to 93). An array is truthy also when it is empty, so the
  first branch is taken whenever \<open>data\<close> is present. An exception leaves the fields
  as the assignments before it made them.
\<close>

definition wiredLeads :: "wire_result \<Rightarrow> component \<Rightarrow> outcome" where
  "wiredLeads result s =
     (let s1 = s\<lparr>wiredLeadsResult := Some result, isLoading := True\<rparr>
      in case wire_data result of
           Some leads \<Rightarrow>
             (case processLeadData leads s1 of
                Inl e \<Rightarrow> \<lparr>fx = [], st = s1, exn = Some e\<rparr>
              | Inr s2 \<Rightarrow> \<lparr>fx = [], st = s2\<lparr>error := None, isLoading := False\<rparr>, exn = None\<rparr>)
         | None \<Rightarrow>
             (case wire_error result of
                Some err \<Rightarrow>
                  (let s2 = s1\<lparr>error := Some err, data := [], filteredData := []\<rparr>
                   in case error_message err of
                        Inl e \<Rightarrow> \<lparr>fx = [], st = s2, exn = Some e\<rparr>
                      | Inr m \<Rightarrow>
                          \<lparr>fx = [showToast ''Error'' (''Error loading leads: '' @ m) ''error'' s2],
                           st = s2\<lparr>isLoading := False\<rparr>, exn = None\<rparr>)
              | None \<Rightarrow> \<lparr>fx = [], st = s1, exn = None\<rparr>))"

definition handleRowSelection :: "view_lead list \<Rightarrow> component \<Rightarrow> component" where
  "handleRowSelection rows s = s\<lparr>selectedRows := rows\<rparr>"

definition handleStatusChange :: "string \<Rightarrow> component \<Rightarrow> component" where
  "handleStatusChange v s = s\<lparr>selectedStatus := Some v\<rparr>"

definition handleOwnerChange :: "string \<Rightarrow> component \<Rightarrow> component" where
  "handleOwnerChange v s = s\<lparr>selectedOwner := Some v\<rparr>"

definition handleSearch :: "string \<Rightarrow> component \<Rightarrow> component" where
  "handleSearch v s = applyFilter (s\<lparr>searchTerm := toLowerCase v\<rparr>)"

text \<open>
  The wire results a refresh delivers are handled one after the other; an exception
  thrown by \<open>wiredLeads\<close> is reported by the framework and does not reach the promise
  of \<open>refreshApex\<close>.
\<close>

fun deliver :: "wire_result list \<Rightarrow> component \<Rightarrow> observation list \<times> component" where
  "deliver [] s = ([], s)"
| "deliver (w # ws) s =
     (case deliver ws (st (wiredLeads w s)) of
        (t, s') \<Rightarrow> (fx (wiredLeads w s) @ t, s'))"

definition handleRefresh :: "refresh_reply \<Rightarrow> component \<Rightarrow> outcome" where
  "handleRefresh reply s =
     (let s1 = s\<lparr>isLoading := True\<rparr>;
          s2 = s1\<lparr>selectedRows := []\<rparr>;
          call = (RefreshApex (wiredLeadsResult s2), s2)
      in case deliver (emitted reply) s2 of
           (t, s3) \<Rightarrow>
             \<lparr>fx = call # t @ [showToast ''Success'' ''Lead data refreshed'' ''success'' s3],
              st = s3\<lparr>isLoading := False\<rparr>,
              exn = map_option Unhandled (settled reply)\<rparr>)"

subsection \<open>The bulk updates\<close>

text \<open>
  \<open>p.then(A).catch(B).finally(C)\<close>: when \<open>p\<close> resolves, \<open>A\<close> runs and the chain waits
  for the promise \<open>A\<close> returns (the refresh); \<open>B\<close> runs when \<open>p\<close> or that promise is
  rejected; \<open>C\<close> runs in every case, also when \<open>B\<close> throws.
\<close>

text \<open>
  A bulk update is followed from the click to the end of its promise chain, with no
  other event of the user in between.
\<close>

definition on_rejected ::
  "(js_error \<Rightarrow> component \<Rightarrow> js_exn + observation) \<Rightarrow> (component \<Rightarrow> component) \<Rightarrow>
   observation list \<Rightarrow> js_error \<Rightarrow> component \<Rightarrow> outcome" where
  "on_rejected onCatch onFinally pre e s =
     (case onCatch e s of
        Inl x \<Rightarrow> \<lparr>fx = pre, st = onFinally s, exn = Some x\<rparr>
      | Inr toast \<Rightarrow> \<lparr>fx = pre @ [toast], st = onFinally s, exn = None\<rparr>)"

definition then_catch_finally ::
  "(component \<Rightarrow> observation list) \<Rightarrow> (js_error \<Rightarrow> component \<Rightarrow> js_exn + observation) \<Rightarrow>
   (component \<Rightarrow> component) \<Rightarrow> mutation_reply \<Rightarrow> component \<Rightarrow> outcome" where
  "then_catch_finally onThen onCatch onFinally reply s =
     (case mutated reply of
        Some e \<Rightarrow> on_rejected onCatch onFinally [] e s
      | None \<Rightarrow>
          (case deliver (emitted (refreshed reply)) s of
             (t, s2) \<Rightarrow>
               (case settled (refreshed reply) of
                  None \<Rightarrow> \<lparr>fx = onThen s @ t, st = onFinally s2, exn = None\<rparr>
                | Some e \<Rightarrow> on_rejected onCatch onFinally (onThen s @ t) e s2)))"

definition updateStatus :: "mutation_reply \<Rightarrow> component \<Rightarrow> outcome" where
  "updateStatus reply s =
     (if selectedRows s = [] then
        \<lparr>fx = [showToast ''Warning'' ''Please select at least one lead'' ''warning'' s],
         st = s, exn = None\<rparr>
      else if \<not> truthy (selectedStatus s) then
        \<lparr>fx = [showToast ''Warning'' ''Please select a status'' ''warning'' s],
         st = s, exn = None\<rparr>
      else
        (let leadIds = map LeadId (selectedRows s);
             s1 = s\<lparr>isLoading := True\<rparr>;
             call = (UpdateLeadStatus leadIds (selectedStatus s1), s1);
             r = then_catch_finally
                   (\<lambda>s. [showToast ''Success''
                            (digits (length leadIds) @ '' leads updated successfully'')
                            ''success'' s,
                          (RefreshApex (wiredLeadsResult s), s)])
                   (\<lambda>err s. case error_message err of
                        Inl x \<Rightarrow> Inl x
                      | Inr m \<Rightarrow> Inr (showToast ''Error'' (''Error updating leads: '' @ m)
                                        ''error'' s))
                   (\<lambda>s. s\<lparr>isLoading := False, selectedRows := []\<rparr>)
                   reply s1
         in r\<lparr>fx := call # fx r\<rparr>))"

definition updateOwner :: "mutation_reply \<Rightarrow> component \<Rightarrow> outcome" where
  "updateOwner reply s =
     (if selectedRows s = [] then
        \<lparr>fx = [showToast ''Warning'' ''Please select at least one lead'' ''warning'' s],
         st = s, exn = None\<rparr>
      else if \<not> truthy (selectedOwner s) then
        \<lparr>fx = [showToast ''Warning'' ''Please select an owner'' ''warning'' s],
         st = s, exn = None\<rparr>
      else
        (let leadIds = map LeadId (selectedRows s);
             s1 = s\<lparr>isLoading := True\<rparr>;
             call = (UpdateLeadOwner leadIds (selectedOwner s1), s1);
             r = then_catch_finally
                   (\<lambda>s. [showToast ''Success''
                            (digits (length leadIds) @ '' lead owners updated successfully'')
                            ''success'' s,
                          (RefreshApex (wiredLeadsResult s), s)])
                   (\<lambda>err s. case error_message err of
                        Inl x \<Rightarrow> Inl x
                      | Inr m \<Rightarrow> Inr (showToast ''Error''
                                        (''Error updating lead owners: '' @ m) ''error'' s))
                   (\<lambda>s. s\<lparr>isLoading := False, selectedRows := []\<rparr>)
                   reply s1
         in r\<lparr>fx := call # fx r\<rparr>))"

subsection \<open>Example values\<close>

definition lead_acme :: raw_lead where
  "lead_acme = \<lparr>LeadId = ''00Q1'', Name = Some ''Ann Lee'', Company = Some ''Acme'',
                Status = Some ''Working - Contacted'',
                Owner = Some \<lparr>Owner_Name = Some ''Bob''\<rparr>, LeadSource = Some ''Web''\<rparr>"

definition lead_zeta :: raw_lead where
  "lead_zeta = \<lparr>LeadId = ''00Q2'', Name = Some ''Carl'', Company = Some ''Zeta'',
                Status = Some ''Unknown'',
                Owner = Some \<lparr>Owner_Name = None\<rparr>, LeadSource = None\<rparr>"

definition lead_orphan :: raw_lead where
  "lead_orphan = \<lparr>LeadId = ''00Q3'', Name = Some ''Dee'', Company = Some ''Orphan Co'',
                  Status = Some ''Open - Not Contacted'',
                  Owner = None, LeadSource = Some ''Phone''\<rparr>"

definition view_acme :: view_lead where
  "view_acme = \<lparr>LeadId = ''00Q1'', Name = Some ''Ann Lee'', Company = Some ''Acme'',
                Status = Some ''Working - Contacted'',
                Owner = Some \<lparr>Owner_Name = Some ''Bob''\<rparr>, LeadSource = Some ''Web'',
                OwnerName = Some ''Bob'', statusClass = ''slds-text-color_success''\<rparr>"

definition view_zeta :: view_lead where
  "view_zeta = \<lparr>LeadId = ''00Q2'', Name = Some ''Carl'', Company = Some ''Zeta'',
                Status = Some ''Unknown'',
                Owner = Some \<lparr>Owner_Name = None\<rparr>, LeadSource = None,
                OwnerName = None, statusClass = []\<rparr>"

definition view_cafe :: view_lead where
  "view_cafe = \<lparr>LeadId = ''00Q4'', Name = Some ''Eve'',
                Company = Some [CHR ''C'', CHR ''a'', CHR ''f'', CHR 0xE9],
                Status = Some ''Open - Not Contacted'',
                Owner = Some \<lparr>Owner_Name = Some ''Bob''\<rparr>, LeadSource = None,
                OwnerName = Some ''Bob'', statusClass = ''slds-text-color_weak''\<rparr>"

definition bare_error :: js_error where
  "bare_error = \<lparr>body = None\<rparr>"

definition fetch_bare :: wire_result where
  "fetch_bare = \<lparr>wire_data = None, wire_error = Some bare_error\<rparr>"

definition reply_bare :: mutation_reply where
  "reply_bare = \<lparr>mutated = Some bare_error, refreshed = \<lparr>emitted = [], settled = None\<rparr>\<rparr>"

definition fetch_ok :: wire_result where
  "fetch_ok = \<lparr>wire_data = Some [lead_acme, lead_zeta], wire_error = None\<rparr>"

definition apex_error :: js_error where
  "apex_error = \<lparr>body = Some \<lparr>message = Some ''Insufficient access''\<rparr>\<rparr>"

definition fetch_failed :: wire_result where
  "fetch_failed = \<lparr>wire_data = None, wire_error = Some apex_error\<rparr>"

definition loaded :: component where
  "loaded = init\<lparr>data := [view_acme, view_zeta], filteredData := [view_acme, view_zeta],
                 wiredLeadsResult := Some fetch_ok, isLoading := False\<rparr>"

definition picked :: component where
  "picked = loaded\<lparr>selectedRows := [view_acme, view_zeta],
                   selectedStatus := Some ''Closed - Not Converted'',
                   selectedOwner := Some ''005A''\<rparr>"

definition reply_ok :: mutation_reply where
  "reply_ok = \<lparr>mutated = None, refreshed = \<lparr>emitted = [fetch_ok], settled = None\<rparr>\<rparr>"

definition reply_failed :: mutation_reply where
  "reply_failed = \<lparr>mutated = Some apex_error, refreshed = \<lparr>emitted = [], settled = None\<rparr>\<rparr>"

definition refresh_failed :: refresh_reply where
  "refresh_failed = \<lparr>emitted = [fetch_failed], settled = Some apex_error\<rparr>"

subsection \<open>Notions of the specification\<close>

text \<open>
  The specification's filter rule, in its own words: a record matches a term when at
  least one of the five fields Name, Company, Status, ownerName, LeadSource is present,
  not empty, and contains the term when case is ignored (both sides lowered, the term a
  contiguous part of the field).
\<close>

definition contains_ci_spec :: "string \<Rightarrow> string \<Rightarrow> bool" where
  "contains_ci_spec field t = sublist (toLowerCase t) (toLowerCase field)"

definition matches_spec :: "string \<Rightarrow> view_lead \<Rightarrow> bool" where
  "matches_spec t lead =
     (\<exists>field \<in> set [Name lead, Company lead, Status lead, OwnerName lead, LeadSource lead].
        \<exists>f. field = Some f \<and> f \<noteq> [] \<and> contains_ci_spec f t)"

text \<open>
  The selection invariant of the specification: the identifiers of the selected rows
  are among the identifiers of the visible rows.
\<close>

definition selection_visible :: "component \<Rightarrow> bool" where
  "selection_visible s =
     (set (map LeadId (selectedRows s)) \<subseteq> set (map LeadId (filteredData s)))"

definition is_refresh :: "effect \<Rightarrow> bool" where
  "is_refresh e = (case e of RefreshApex w \<Rightarrow> True | _ \<Rightarrow> False)"

definition is_remote :: "effect \<Rightarrow> bool" where
  "is_remote e = (case e of ShowToast t m v \<Rightarrow> False | _ \<Rightarrow> True)"

section \<open>Properties\<close>

lemmas example_defs =
  picked_def loaded_def init_def reply_ok_def reply_failed_def refresh_failed_def fetch_ok_def
  fetch_failed_def apex_error_def lead_acme_def lead_zeta_def view_acme_def view_zeta_def
  view_cafe_def bare_error_def fetch_bare_def reply_bare_def

lemmas handler_defs =
  updateStatus_def updateOwner_def then_catch_finally_def on_rejected_def wiredLeads_def
  processLeadData_def viewLead_def applyFilter_def showToast_def truthy_def error_message_def
  handleRefresh_def handleRowSelection_def handleSearch_def Let_def

subsection \<open>Ingest\<close>

lemma map_leads_length: "map_leads ls = Inr vs \<Longrightarrow> length vs = length ls"
  by (induction ls arbitrary: vs) (auto split: sum.splits)

lemma map_leads_nth:
  "map_leads ls = Inr vs \<Longrightarrow> i < length ls \<Longrightarrow> viewLead (ls ! i) = Inr (vs ! i)"
proof (induction ls arbitrary: vs i)
  case Nil
  then show ?case by simp
next
  case (Cons l ls)
  then show ?case
    by (cases i) (auto split: sum.splits)
qed

lemma applyFilter_data [simp]: "data (applyFilter s) = data s"
  by (simp add: applyFilter_def)

lemma processLeadData_data:
  "processLeadData ls s = Inr s' \<Longrightarrow> map_leads ls = Inr (data s')"
  by (auto simp: processLeadData_def split: sum.splits)

lemma viewLead_statusClass:
  "viewLead l = Inr v \<Longrightarrow>
     statusClass v =
       (if Status l = Some ''Working - Contacted'' then ''slds-text-color_success''
        else if Status l = Some ''Closed - Not Converted'' then ''slds-text-color_error''
        else if Status l = Some ''Open - Not Contacted'' then ''slds-text-color_weak''
        else '''')"
  by (auto simp: viewLead_def split: option.splits)

lemma viewLead_fields:
  "viewLead l = Inr v \<Longrightarrow>
     LeadId v = LeadId l \<and> Name v = Name l \<and> Company v = Company l \<and> Status v = Status l
     \<and> LeadSource v = LeadSource l \<and> (\<exists>ow. Owner l = Some ow \<and> OwnerName v = Owner_Name ow)"
  by (auto simp: viewLead_def split: option.splits)

text \<open>
  C1 (defect of the code). A lead without an \<open>Owner\<close> object makes
  \<open>processLeadData\<close> throw a TypeError at \<open>lead.Owner.Name\<close>: the wire handler ends
  with that exception, stores no lead and leaves \<open>isLoading\<close> true. The specification
  asks for no exception and the owner name \<open>""\<close>.
\<close>

theorem C1_missing_owner_throws:
  "processLeadData [lead_acme, lead_orphan] init
     = Inl (TypeError ''Cannot read properties of undefined (reading Name)'')
   \<and> exn (wiredLeads \<lparr>wire_data = Some [lead_acme, lead_orphan], wire_error = None\<rparr> init)
     = Some (TypeError ''Cannot read properties of undefined (reading Name)'')
   \<and> data (st (wiredLeads \<lparr>wire_data = Some [lead_acme, lead_orphan], wire_error = None\<rparr> init))
     = []
   \<and> isLoading (st (wiredLeads \<lparr>wire_data = Some [lead_acme, lead_orphan], wire_error = None\<rparr> init))"
  by (simp add: processLeadData_def wiredLeads_def viewLead_def lead_acme_def lead_orphan_def
      init_def)

text \<open>
  C3. For every lead that \<open>processLeadData\<close> turns into a row, the row's
  \<open>statusClass\<close> is decided by an exact comparison of \<open>Status\<close>:
  "Working - Contacted" gives the success class, "Closed - Not Converted" the error
  class, "Open - Not Contacted" the weak class, and every other value of \<open>Status\<close>
  (also an absent one) gives the empty class.
\<close>

theorem C3_statusClass_mapping:
  assumes "processLeadData ls s = Inr s'" and "i < length ls"
  shows "length (data s') = length ls
    \<and> (Status (ls ! i) = Some ''Working - Contacted''
         \<longrightarrow> statusClass (data s' ! i) = ''slds-text-color_success'')
    \<and> (Status (ls ! i) = Some ''Closed - Not Converted''
         \<longrightarrow> statusClass (data s' ! i) = ''slds-text-color_error'')
    \<and> (Status (ls ! i) = Some ''Open - Not Contacted''
         \<longrightarrow> statusClass (data s' ! i) = ''slds-text-color_weak'')
    \<and> (Status (ls ! i) \<noteq> Some ''Working - Contacted''
         \<and> Status (ls ! i) \<noteq> Some ''Closed - Not Converted''
         \<and> Status (ls ! i) \<noteq> Some ''Open - Not Contacted''
         \<longrightarrow> statusClass (data s' ! i) = '''')"
proof -
  from assms(1) have m: "map_leads ls = Inr (data s')"
    by (rule processLeadData_data)
  from map_leads_nth [OF m assms(2)] have v: "viewLead (ls ! i) = Inr (data s' ! i)" .
  from viewLead_statusClass [OF v] map_leads_length [OF m] show ?thesis
    by simp
qed

text \<open>The mapping at the two leads of the example fetch, one of them with Status "Unknown".\<close>

theorem C3_statusClass_mapping_witness:
  "processLeadData [lead_acme, lead_zeta] init
     = Inr (loaded\<lparr>wiredLeadsResult := None, isLoading := True\<rparr>)
   \<and> (1::nat) < length [lead_acme, lead_zeta]
   \<and> statusClass (data (loaded\<lparr>wiredLeadsResult := None, isLoading := True\<rparr>) ! 1) = []
   \<and> statusClass (data (loaded\<lparr>wiredLeadsResult := None, isLoading := True\<rparr>) ! 0)
       = ''slds-text-color_success''"
proof -
  have p: "processLeadData [lead_acme, lead_zeta] init
             = Inr (loaded\<lparr>wiredLeadsResult := None, isLoading := True\<rparr>)"
    by (simp add: processLeadData_def viewLead_def applyFilter_def
        init_def loaded_def lead_acme_def lead_zeta_def view_acme_def view_zeta_def)
  from p C3_statusClass_mapping [OF p, of 1] C3_statusClass_mapping [OF p, of 0]
  show ?thesis
    by (simp add: lead_acme_def lead_zeta_def)
qed

subsection \<open>Filtering\<close>

lemma toLowerCase_Nil [simp]: "toLowerCase t = [] \<longleftrightarrow> t = []"
  by (simp add: toLowerCase_def)

text \<open>
  Lowering is idempotent, so the specification's containment does not depend on the
  case in which the field or the term is written.
\<close>

lemma lower_char_idem: "lower_char (lower_char c) = lower_char c"
  by (simp add: lower_char_def cased_upper_def cased_lower_def)

lemma toLowerCase_idem [simp]: "toLowerCase (toLowerCase s) = toLowerCase s"
  by (simp add: toLowerCase_def lower_char_idem)

lemma contains_ci_spec_case:
  "contains_ci_spec (toLowerCase f) t = contains_ci_spec f t"
  "contains_ci_spec f (toLowerCase t) = contains_ci_spec f t"
  by (simp_all add: contains_ci_spec_def)

lemma str_includes_sublist: "str_includes s t \<longleftrightarrow> sublist t s"
  by (induction s) (simp_all add: sublist_Cons_right)

lemma field_matches_spec:
  "list_ex (field_matches (toLowerCase t)) (searchableFields lead) \<longleftrightarrow> matches_spec t lead"
  by (auto simp: searchableFields_def field_matches_def matches_spec_def contains_ci_spec_def
      str_includes_sublist split: option.splits)

lemma applyFilter_frame [simp]:
  "selectedRows (applyFilter s) = selectedRows s"
  "selectedStatus (applyFilter s) = selectedStatus s"
  "selectedOwner (applyFilter s) = selectedOwner s"
  "searchTerm (applyFilter s) = searchTerm s"
  by (simp_all add: applyFilter_def)

lemma wiredLeads_fetch_ok: "st (wiredLeads fetch_ok init) = loaded"
  by (simp add: wiredLeads_def processLeadData_def viewLead_def applyFilter_def fetch_ok_def
      init_def loaded_def lead_acme_def lead_zeta_def view_acme_def view_zeta_def)

text \<open>
  C2. For every state of the component (so for every ingested collection \<open>data s\<close>)
  and every term \<open>t\<close> typed into the search box: the search leaves \<open>data\<close> as it is;
  when \<open>t\<close> is empty \<open>filteredData\<close> becomes \<open>data\<close>, in the same order; otherwise
  \<open>filteredData\<close> becomes the order-preserving subsequence of \<open>data\<close> of the records
  that match \<open>t\<close> by the specification's rule, under which an absent or empty field
  never matches.
\<close>

theorem C2_filter:
  "data (handleSearch t s) = data s
   \<and> filteredData (handleSearch t s)
       = (if t = [] then data s else filter (matches_spec t) (data s))"
  by (simp add: handleSearch_def applyFilter_def field_matches_spec)

text \<open>
  The term "ACME" keeps the lead of company "Acme" and drops the other one; the empty
  term keeps both; the term of the one capital letter 0xC9 (E with acute accent) keeps
  the lead whose company ends in the small letter 0xE9.
\<close>

theorem C2_filter_witness:
  "filteredData (handleSearch ''ACME'' loaded) = [view_acme]
   \<and> filter (matches_spec ''ACME'') (data loaded) = [view_acme]
   \<and> filteredData (handleSearch [] loaded) = [view_acme, view_zeta]
   \<and> filteredData (handleSearch [CHR 0xC9] (loaded\<lparr>data := [view_cafe, view_zeta]\<rparr>))
       = [view_cafe]
   \<and> filter (matches_spec [CHR 0xC9]) [view_cafe, view_zeta] = [view_cafe]"
  using C2_filter [of "''ACME''" loaded] C2_filter [of "[]" loaded]
    C2_filter [of "[CHR 0xC9]" "loaded\<lparr>data := [view_cafe, view_zeta]\<rparr>"]
  by (simp add: handleSearch_def applyFilter_def loaded_def init_def view_acme_def
      view_zeta_def view_cafe_def searchableFields_def field_matches_def toLowerCase_def
      lower_char_def cased_upper_def cased_lower_def)

subsection \<open>What the wire handler and a refresh leave alone\<close>

lemma wiredLeads_frame [simp]:
  "selectedRows (st (wiredLeads w s)) = selectedRows s"
  "selectedStatus (st (wiredLeads w s)) = selectedStatus s"
  "selectedOwner (st (wiredLeads w s)) = selectedOwner s"
  "searchTerm (st (wiredLeads w s)) = searchTerm s"
  by (auto simp: wiredLeads_def processLeadData_def Let_def split: option.splits sum.splits)

lemma wiredLeads_fx: "ob \<in> set (fx (wiredLeads w s)) \<Longrightarrow> \<not> is_remote (fst ob)"
  by (auto simp: wiredLeads_def showToast_def is_remote_def Let_def
      split: option.splits sum.splits)

lemma deliver_frame [simp]:
  "selectedRows (snd (deliver ws s)) = selectedRows s"
  "selectedStatus (snd (deliver ws s)) = selectedStatus s"
  "selectedOwner (snd (deliver ws s)) = selectedOwner s"
  "searchTerm (snd (deliver ws s)) = searchTerm s"
  by (induction ws arbitrary: s; simp split: prod.splits; metis snd_conv wiredLeads_frame)+

lemma deliver_fx: "ob \<in> set (fst (deliver ws s)) \<Longrightarrow> \<not> is_remote (fst ob)"
proof (induction ws arbitrary: s)
  case Nil
  then show ?case by simp
next
  case (Cons w ws)
  then show ?case
    by (auto split: prod.splits dest: wiredLeads_fx) (metis fst_conv)+
qed

lemma is_refresh_remote: "is_refresh e \<Longrightarrow> is_remote e"
  by (cases e) (simp_all add: is_refresh_def is_remote_def)

lemma filter_deliver_refresh [simp]: "[ob \<leftarrow> fst (deliver ws s). is_refresh (fst ob)] = []"
  by (auto simp: filter_empty_conv dest: deliver_fx is_refresh_remote)

lemma filter_deliver_remote [simp]: "[ob \<leftarrow> fst (deliver ws s). is_remote (fst ob)] = []"
  by (auto simp: filter_empty_conv dest: deliver_fx)

lemma is_refresh_simps [simp]:
  "is_refresh (RefreshApex w)"
  "\<not> is_refresh (ShowToast a b c)"
  "\<not> is_refresh (UpdateLeadStatus ids v)"
  "\<not> is_refresh (UpdateLeadOwner ids v)"
  by (simp_all add: is_refresh_def)

lemma is_remote_simps [simp]:
  "is_remote (RefreshApex w)"
  "\<not> is_remote (ShowToast a b c)"
  "is_remote (UpdateLeadStatus ids v)"
  "is_remote (UpdateLeadOwner ids v)"
  by (simp_all add: is_remote_def)

text \<open>The fields of the component after each of the three operations that call the platform.\<close>

lemma updateStatus_st:
  "st (updateStatus reply s) =
     (if selectedRows s = [] \<or> \<not> truthy (selectedStatus s) then s
      else (snd (deliver (if mutated reply = None then emitted (refreshed reply) else [])
                   (s\<lparr>isLoading := True\<rparr>)))\<lparr>isLoading := False, selectedRows := []\<rparr>)"
  by (simp add: updateStatus_def then_catch_finally_def on_rejected_def Let_def case_prod_beta
      split: option.splits sum.splits)

lemma updateOwner_st:
  "st (updateOwner reply s) =
     (if selectedRows s = [] \<or> \<not> truthy (selectedOwner s) then s
      else (snd (deliver (if mutated reply = None then emitted (refreshed reply) else [])
                   (s\<lparr>isLoading := True\<rparr>)))\<lparr>isLoading := False, selectedRows := []\<rparr>)"
  by (simp add: updateOwner_def then_catch_finally_def on_rejected_def Let_def case_prod_beta
      split: option.splits sum.splits)

lemma handleRefresh_st:
  "st (handleRefresh r s) =
     (snd (deliver (emitted r) (s\<lparr>isLoading := True, selectedRows := []\<rparr>)))\<lparr>isLoading := False\<rparr>"
  by (simp add: handleRefresh_def Let_def case_prod_beta)

subsection \<open>Selection\<close>

text \<open>
  C4 as the specification states it fails: after the first fetch the table host selects
  the two visible rows, and the selection is within the view; the user then types
  "ACME", the view shrinks to one row, and the selection still holds both rows.
\<close>

theorem C4_counterexample:
  "selection_visible (handleRowSelection [view_acme, view_zeta] (st (wiredLeads fetch_ok init)))
   \<and> \<not> selection_visible
         (handleSearch ''ACME''
            (handleRowSelection [view_acme, view_zeta] (st (wiredLeads fetch_ok init))))"
  unfolding wiredLeads_fetch_ok
  by (simp add: selection_visible_def handleRowSelection_def
      handleSearch_def applyFilter_def loaded_def init_def view_acme_def view_zeta_def
      searchableFields_def field_matches_def toLowerCase_def lower_char_def
      cased_upper_def cased_lower_def)

text \<open>
  C4 (amended). A select event whose rows are all visible leaves the selection within
  the visible leads. A change of the filter term leaves the selection as it is: it is
  not cut down to the new view. The selection is empty after every bulk status or owner
  update that passes its validation, whatever the mutator and the refresh answer, and
  after every manual refresh; so the bulk updates keep the selection within the view
  when it was, and a refresh always ends with it within the view.
\<close>

theorem C4_selection_amended:
  "(set (map LeadId rows) \<subseteq> set (map LeadId (filteredData s))
      \<longrightarrow> selection_visible (handleRowSelection rows s))
   \<and> selectedRows (handleSearch t s) = selectedRows s
   \<and> (truthy (selectedStatus s) \<longrightarrow> selectedRows (st (updateStatus reply s)) = [])
   \<and> (truthy (selectedOwner s) \<longrightarrow> selectedRows (st (updateOwner reply s)) = [])
   \<and> selectedRows (st (handleRefresh r s)) = []
   \<and> (selection_visible s \<longrightarrow> selection_visible (st (updateStatus reply s))
         \<and> selection_visible (st (updateOwner reply s)))
   \<and> selection_visible (st (handleRefresh r s))"
  by (simp add: updateStatus_st updateOwner_st handleRefresh_st selection_visible_def
      handleRowSelection_def handleSearch_def)

theorem C4_selection_amended_witness:
  "set (map LeadId [view_acme]) \<subseteq> set (map LeadId (filteredData loaded))
   \<and> selection_visible (handleRowSelection [view_acme] loaded)
   \<and> selectedRows (handleSearch ''zeta'' picked) = [view_acme, view_zeta]
   \<and> truthy (selectedStatus picked)
   \<and> selectedRows (st (updateStatus reply_failed picked)) = []
   \<and> truthy (selectedOwner picked)
   \<and> selectedRows (st (updateOwner reply_ok picked)) = []
   \<and> selectedRows (st (handleRefresh refresh_failed picked)) = []
   \<and> selection_visible picked
   \<and> selection_visible (st (updateStatus reply_ok picked))"
  using C4_selection_amended [where rows = "[view_acme]" and s = loaded and t = "''zeta''"
      and reply = reply_ok and r = refresh_failed]
    C4_selection_amended [where rows = "[view_acme]" and s = picked and t = "''zeta''"
      and reply = reply_failed and r = refresh_failed]
    C4_selection_amended [where rows = "[view_acme]" and s = picked and t = "''zeta''"
      and reply = reply_ok and r = refresh_failed]
  by (simp add: selection_visible_def handleRowSelection_def truthy_def example_defs)

subsection \<open>Bulk updates\<close>

text \<open>
  C5. The specification's ValidationFailed result is the warning toast that names the
  failed precondition. With an empty selection \<open>updateStatus\<close> and \<open>updateOwner\<close>
  do nothing but show the warning "Please select at least one lead": the trace holds
  that toast alone, so no remote call is made, and the component is unchanged. With a
  selection but no status chosen (the field undefined or empty) \<open>updateStatus\<close> shows
  "Please select a status" and nothing else; \<open>updateOwner\<close> does the same with
  "Please select an owner" when no owner is chosen.
\<close>

theorem C5_validation:
  "(selectedRows s = [] \<longrightarrow>
      updateStatus reply s
        = \<lparr>fx = [(ShowToast ''Warning'' ''Please select at least one lead'' ''warning'', s)],
           st = s, exn = None\<rparr>
      \<and> updateOwner reply s
        = \<lparr>fx = [(ShowToast ''Warning'' ''Please select at least one lead'' ''warning'', s)],
           st = s, exn = None\<rparr>)
   \<and> (selectedRows s \<noteq> [] \<and> \<not> truthy (selectedStatus s) \<longrightarrow>
      updateStatus reply s
        = \<lparr>fx = [(ShowToast ''Warning'' ''Please select a status'' ''warning'', s)],
           st = s, exn = None\<rparr>)
   \<and> (selectedRows s \<noteq> [] \<and> \<not> truthy (selectedOwner s) \<longrightarrow>
      updateOwner reply s
        = \<lparr>fx = [(ShowToast ''Warning'' ''Please select an owner'' ''warning'', s)],
           st = s, exn = None\<rparr>)"
  by (simp add: updateStatus_def updateOwner_def showToast_def)

theorem C5_validation_witness:
  "selectedRows loaded = []
   \<and> fx (updateStatus reply_ok loaded)
       = [(ShowToast ''Warning'' ''Please select at least one lead'' ''warning'', loaded)]
   \<and> fx (updateOwner reply_ok loaded)
       = [(ShowToast ''Warning'' ''Please select at least one lead'' ''warning'', loaded)]
   \<and> selectedRows (picked\<lparr>selectedStatus := None, selectedOwner := Some []\<rparr>) \<noteq> []
   \<and> \<not> truthy (selectedStatus (picked\<lparr>selectedStatus := None, selectedOwner := Some []\<rparr>))
   \<and> \<not> truthy (selectedOwner (picked\<lparr>selectedStatus := None, selectedOwner := Some []\<rparr>))
   \<and> map fst (fx (updateStatus reply_ok
                      (picked\<lparr>selectedStatus := None, selectedOwner := Some []\<rparr>)))
       = [ShowToast ''Warning'' ''Please select a status'' ''warning'']
   \<and> map fst (fx (updateOwner reply_ok
                      (picked\<lparr>selectedStatus := None, selectedOwner := Some []\<rparr>)))
       = [ShowToast ''Warning'' ''Please select an owner'' ''warning'']"
  using C5_validation [of loaded reply_ok]
    C5_validation [of "picked\<lparr>selectedStatus := None, selectedOwner := Some []\<rparr>" reply_ok]
  by (simp add: truthy_def example_defs)

text \<open>
  C6. With a selection and a chosen status, when the Apex update resolves,
  \<open>updateStatus\<close> calls \<open>refreshApex\<close> exactly once, whatever the refresh then
  delivers and however it settles. The call is the third step of the trace, after the
  Apex update and the success toast, and at each of these three steps \<open>isLoading\<close> is
  still true; at the end the selection is empty and \<open>isLoading\<close> is false.
\<close>

theorem C6_success:
  assumes "selectedRows s \<noteq> []" and "truthy (selectedStatus s)" and "mutated reply = None"
  shows "[ob \<leftarrow> fx (updateStatus reply s). is_refresh (fst ob)]
           = [(RefreshApex (wiredLeadsResult s), s\<lparr>isLoading := True\<rparr>)]
    \<and> (\<exists>post. fx (updateStatus reply s)
          = [(UpdateLeadStatus (map LeadId (selectedRows s)) (selectedStatus s),
                s\<lparr>isLoading := True\<rparr>),
             (ShowToast ''Success''
                (digits (length (selectedRows s)) @ '' leads updated successfully'') ''success'',
                s\<lparr>isLoading := True\<rparr>),
             (RefreshApex (wiredLeadsResult s), s\<lparr>isLoading := True\<rparr>)] @ post)
    \<and> selectedRows (st (updateStatus reply s)) = []
    \<and> \<not> isLoading (st (updateStatus reply s))"
  using assms
  by (simp add: updateStatus_st)
     (simp add: updateStatus_def then_catch_finally_def on_rejected_def Let_def case_prod_beta
      showToast_def split: option.splits sum.splits)

theorem C6_success_witness:
  "selectedRows picked \<noteq> [] \<and> truthy (selectedStatus picked) \<and> mutated reply_ok = None
   \<and> map fst (fx (updateStatus reply_ok picked))
       = [UpdateLeadStatus [''00Q1'', ''00Q2''] (Some ''Closed - Not Converted''),
          ShowToast ''Success'' ''2 leads updated successfully'' ''success'',
          RefreshApex (Some fetch_ok)]
   \<and> [ob \<leftarrow> fx (updateStatus reply_ok picked). is_refresh (fst ob)]
       = [(RefreshApex (Some fetch_ok), picked\<lparr>isLoading := True\<rparr>)]
   \<and> selectedRows (st (updateStatus reply_ok picked)) = []
   \<and> \<not> isLoading (st (updateStatus reply_ok picked))"
proof -
  have h: "selectedRows picked \<noteq> []" "truthy (selectedStatus picked)" "mutated reply_ok = None"
    by (simp_all add: truthy_def example_defs)
  have t: "map fst (fx (updateStatus reply_ok picked))
       = [UpdateLeadStatus [''00Q1'', ''00Q2''] (Some ''Closed - Not Converted''),
          ShowToast ''Success'' ''2 leads updated successfully'' ''success'',
          RefreshApex (Some fetch_ok)]"
    by (simp add: handler_defs example_defs digits.simps)
  from h t C6_success [OF h] show ?thesis
    by (simp add: picked_def loaded_def)
qed




subsection \<open>Fetch errors, refresh and the frame of the bulk updates\<close>




text \<open>
  C9. Every run of \<open>handleRefresh\<close> starts with the one call of \<open>refreshApex\<close> on
  the stored wire result, made when the selection is already empty and \<open>isLoading\<close>
  is true, and ends with the toast "Lead data refreshed", whatever the refresh
  delivers and whether its promise resolves or is rejected; afterwards the selection
  is empty and \<open>isLoading\<close> is false.
\<close>

theorem C9_refresh:
  "(\<exists>mid snap. fx (handleRefresh r s)
       = (RefreshApex (wiredLeadsResult s), s\<lparr>isLoading := True, selectedRows := []\<rparr>)
         # mid @ [(ShowToast ''Success'' ''Lead data refreshed'' ''success'', snap)])
   \<and> [ob \<leftarrow> fx (handleRefresh r s). is_refresh (fst ob)]
       = [(RefreshApex (wiredLeadsResult s), s\<lparr>isLoading := True, selectedRows := []\<rparr>)]
   \<and> selectedRows (st (handleRefresh r s)) = []
   \<and> \<not> isLoading (st (handleRefresh r s))"
  by (simp add: handleRefresh_st)
     (simp add: handleRefresh_def Let_def case_prod_beta showToast_def)

theorem C9_refresh_witness:
  "map fst (fx (handleRefresh refresh_failed picked))
     = [RefreshApex (Some fetch_ok),
        ShowToast ''Error'' ''Error loading leads: Insufficient access'' ''error'',
        ShowToast ''Success'' ''Lead data refreshed'' ''success'']
   \<and> [ob \<leftarrow> fx (handleRefresh refresh_failed picked). is_refresh (fst ob)]
     = [(RefreshApex (Some fetch_ok), picked\<lparr>isLoading := True, selectedRows := []\<rparr>)]
   \<and> selectedRows (st (handleRefresh refresh_failed picked)) = []
   \<and> \<not> isLoading (st (handleRefresh refresh_failed picked))"
proof -
  have t: "map fst (fx (handleRefresh refresh_failed picked))
     = [RefreshApex (Some fetch_ok),
        ShowToast ''Error'' ''Error loading leads: Insufficient access'' ''error'',
        ShowToast ''Success'' ''Lead data refreshed'' ''success'']"
    by (simp add: handler_defs example_defs)
  from t C9_refresh [of refresh_failed picked]
  show ?thesis
    by (simp add: picked_def loaded_def)
qed

text \<open>
  C10. Whatever the platform answers, \<open>updateStatus\<close> and \<open>updateOwner\<close> leave
  \<open>selectedStatus\<close>, \<open>selectedOwner\<close> and \<open>searchTerm\<close> as they were. When the
  validation fails the component is unchanged; otherwise its final fields are those
  of the start with \<open>isLoading\<close> set to true, then changed by the wire handler for
  whatever the refresh delivers (nothing after a rejected update), then \<open>isLoading\<close>
  set to false and \<open>selectedRows\<close> emptied: the operation itself assigns only these
  two fields.
\<close>

theorem C10_frame:
  "selectedStatus (st (updateStatus reply s)) = selectedStatus s
   \<and> selectedOwner (st (updateStatus reply s)) = selectedOwner s
   \<and> searchTerm (st (updateStatus reply s)) = searchTerm s
   \<and> selectedStatus (st (updateOwner reply s)) = selectedStatus s
   \<and> selectedOwner (st (updateOwner reply s)) = selectedOwner s
   \<and> searchTerm (st (updateOwner reply s)) = searchTerm s
   \<and> st (updateStatus reply s) =
       (if selectedRows s = [] \<or> \<not> truthy (selectedStatus s) then s
        else (snd (deliver (if mutated reply = None then emitted (refreshed reply) else [])
                     (s\<lparr>isLoading := True\<rparr>)))\<lparr>isLoading := False, selectedRows := []\<rparr>)
   \<and> st (updateOwner reply s) =
       (if selectedRows s = [] \<or> \<not> truthy (selectedOwner s) then s
        else (snd (deliver (if mutated reply = None then emitted (refreshed reply) else [])
                     (s\<lparr>isLoading := True\<rparr>)))\<lparr>isLoading := False, selectedRows := []\<rparr>)"
  by (simp add: updateStatus_st updateOwner_st)

theorem C10_frame_witness:
  "selectedStatus (st (updateStatus reply_ok picked)) = Some ''Closed - Not Converted''
   \<and> selectedOwner (st (updateStatus reply_ok picked)) = Some ''005A''
   \<and> selectedStatus (st (updateOwner reply_failed picked)) = Some ''Closed - Not Converted''
   \<and> selectedOwner (st (updateOwner reply_failed picked)) = Some ''005A''
   \<and> st (updateOwner reply_failed picked) = picked\<lparr>isLoading := False, selectedRows := []\<rparr>
   \<and> st (updateStatus reply_ok picked) = picked\<lparr>isLoading := False, selectedRows := []\<rparr>
   \<and> st (updateStatus reply_ok loaded) = loaded"
  using C10_frame [of reply_ok picked] C10_frame [of reply_failed picked]
    C10_frame [of reply_ok loaded]
  by (simp add: handler_defs example_defs)

end
